theory Spec2Isabelle
  imports Complex_Main
begin

section \<open>Data model (src/index.js, typedefs at lines 8-43)\<close>

text \<open>
  JavaScript numbers that are results of \<open>parseInt\<close> or \<open>Math.round\<close> are either an
  integer or \<open>NaN\<close>; they are modelled as \<open>int option\<close> with \<open>None\<close> for \<open>NaN\<close>.
  Epoch timestamps in milliseconds (\<open>Date.now()\<close>, \<open>alertTs\<close>, \<open>firstDownTs\<close>) are
  integers. Quotients of millisecond differences by \<open>1000 * 60\<close> are kept exact, as
  rationals.
\<close>

datatype node_state = ONLINE | OFFLINE

text \<open>\<open>StoredNodeState\<close>: \<open>state\<close> is \<open>'ONLINE' | 'OFFLINE' | null\<close>; \<open>None\<close> is \<open>null\<close>.\<close>

record StoredNodeState =
  state :: "node_state option"
  alertTs :: int
  firstDownTs :: int

text \<open>
  \<open>TailscaleDevice\<close>, the fields that \<open>scheduled\<close> reads. The field \<open>id\<close> of the source
  is called \<open>node_id\<close> here.
\<close>

record TailscaleDevice =
  node_id :: string
  name :: string
  tags :: "string list"
  isOnline :: bool
  lastSeen :: string
  minutesSinceLastSeen :: "int option"

text \<open>
  The message texts are template literals. Each constructor stands for one template of
  the source and carries the values interpolated into it, in the order of the template.
\<close>

datatype message =
  Offline_message string string "int option"
    \<comment> \<open>line 167: escapedDeviceName, lastSeenISO, minutesAgo\<close>
| Still_offline_message string string "int option" int
    \<comment> \<open>line 197: escapedDeviceName, lastSeenISO, minutesAgo, totalDownMinutes\<close>
| Online_message string "int option"
    \<comment> \<open>lines 227-233: escapedDeviceName, the outage minutes when the sentence is appended\<close>
| Worker_error_message string
    \<comment> \<open>line 96: the escaped error message\<close>
| No_devices_message
    \<comment> \<open>line 105\<close>
| Failed_check_message string
    \<comment> \<open>line 272: the escaped error message\<close>

section \<open>JavaScript primitives used by the code\<close>

text \<open>\<open>Math.round\<close>: the nearest integer, a tie going up.\<close>

definition Math_round :: "rat \<Rightarrow> int" where
  "Math_round x = \<lfloor>x + 1 / 2\<rfloor>"

text \<open>\<open>x >= y\<close> and \<open>x <= y\<close> where \<open>y\<close> may be \<open>NaN\<close>: a comparison with \<open>NaN\<close> is false.\<close>

definition js_ge :: "rat \<Rightarrow> int option \<Rightarrow> bool" where
  "js_ge x y = (case y of None \<Rightarrow> False | Some n \<Rightarrow> of_int n \<le> x)"

definition js_le :: "rat \<Rightarrow> int option \<Rightarrow> bool" where
  "js_le x y = (case y of None \<Rightarrow> False | Some n \<Rightarrow> x \<le> of_int n)"

text \<open>\<open>s.split(".")[0]\<close>: the part of \<open>s\<close> before its first dot.\<close>

definition before_first_dot :: "string \<Rightarrow> string" where
  "before_first_dot s = takeWhile (\<lambda>c. c \<noteq> CHR ''.'') s"

section \<open>telegramNotifier.js: escapeMarkdownV2\<close>

definition charsToEscape :: "char list" where
  "charsToEscape =
     [CHR ''_'', CHR ''*'', CHR ''['', CHR '']'', CHR ''('', CHR '')'', CHR ''~'',
      CHR 0x60, CHR ''>'', CHR ''#'', CHR ''+'', CHR ''-'', CHR ''='', CHR ''|'',
      CHR ''{'', CHR ''}'', CHR ''.'', CHR ''!'']"

fun escapeMarkdownV2 :: "string \<Rightarrow> string" where
  "escapeMarkdownV2 [] = []"
| "escapeMarkdownV2 (c # cs) =
     (if c \<in> set charsToEscape then CHR 0x5C # c # escapeMarkdownV2 cs
      else c # escapeMarkdownV2 cs)"

section \<open>The reconciliation step (src/index.js, scheduled, lines 151-255)\<close>

text \<open>
  What one iteration of the loop decides for a device that passed the tag filter: the
  message it sends (if any), the value of \<open>newKVData\<close> and the flag \<open>needsKVWrite\<close>.
  In every branch of the source the notification is sent before \<open>newKVData\<close> is assigned,
  and nothing else happens in between; the effects are carried out by \<open>process_node\<close>
  below, in the source's order.
\<close>

record decision =
  notification :: "message option"
  newKVData :: StoredNodeState
  needsKVWrite :: bool

definition reconcile ::
  "int option \<Rightarrow> TailscaleDevice \<Rightarrow> StoredNodeState \<Rightarrow> int \<Rightarrow> decision" where
  "reconcile reminderIntervalMinutes node previousStateData now =
    (let escapedDeviceName = escapeMarkdownV2 (before_first_dot (name node));
         lastSeenISO = escapeMarkdownV2 (lastSeen node);
         minutesAgo = minutesSinceLastSeen node
     in
     if \<not> isOnline node then
       (let firstDownTimestamp =
              (if state previousStateData = Some OFFLINE \<and> firstDownTs previousStateData \<noteq> 0
               then firstDownTs previousStateData else now)
        in
        if state previousStateData \<noteq> Some OFFLINE then
          (let firstDownTimestamp = now in
           \<lparr> notification = Some (Offline_message escapedDeviceName lastSeenISO minutesAgo),
             newKVData = \<lparr> state = Some OFFLINE, alertTs = now,
                           firstDownTs = firstDownTimestamp \<rparr>,
             needsKVWrite = True \<rparr>)
        else
          (let minutesSinceLastAlert = of_int (now - alertTs previousStateData) / (1000 * 60)
           in
           if js_ge minutesSinceLastAlert reminderIntervalMinutes then
             (let totalDownMinutes =
                    Math_round (of_int (now - firstDownTimestamp) / (1000 * 60))
              in
              \<lparr> notification =
                  Some (Still_offline_message escapedDeviceName lastSeenISO minutesAgo
                          totalDownMinutes),
                newKVData = \<lparr> state = Some OFFLINE, alertTs = now,
                              firstDownTs = firstDownTimestamp \<rparr>,
                needsKVWrite = True \<rparr>)
           else
             \<lparr> notification = None, newKVData = previousStateData, needsKVWrite = False \<rparr>))
     else
       (if state previousStateData = Some OFFLINE then
          (let outageDurationMs =
                 now - (if firstDownTs previousStateData \<noteq> 0
                        then firstDownTs previousStateData else now);
               outageDurationMinutes = Math_round (of_int outageDurationMs / (1000 * 60))
           in
           \<lparr> notification =
               Some (Online_message escapedDeviceName
                       (if firstDownTs previousStateData \<noteq> 0 \<and> outageDurationMinutes > 0
                        then Some outageDurationMinutes else None)),
             newKVData = \<lparr> state = Some ONLINE, alertTs = 0, firstDownTs = 0 \<rparr>,
             needsKVWrite = True \<rparr>)
        else if state previousStateData = None then
          \<lparr> notification = None,
            newKVData = \<lparr> state = Some ONLINE, alertTs = 0, firstDownTs = 0 \<rparr>,
            needsKVWrite = True \<rparr>
        else
          \<lparr> notification = None, newKVData = previousStateData, needsKVWrite = False \<rparr>))"

section \<open>Exceptions, the key-value store and the Telegram API\<close>

text \<open>A thrown JavaScript error with its \<open>message\<close>.\<close>

datatype js_error = SyntaxError string | TypeError string | RangeError string | Error string

fun error_message :: "js_error \<Rightarrow> string" where
  "error_message (SyntaxError m) = m"
| "error_message (TypeError m) = m"
| "error_message (RangeError m) = m"
| "error_message (Error m) = m"

text \<open>\<open>try { body } catch (e) { handler }\<close> on computations that return or throw.\<close>

definition try_catch :: "js_error + 'a \<Rightarrow> (js_error \<Rightarrow> js_error + 'a) \<Rightarrow> js_error + 'a" where
  "try_catch body handler = (case body of Inl e \<Rightarrow> handler e | Inr v \<Rightarrow> Inr v)"

text \<open>
  A text stored under a key is represented by what \<open>JSON.parse\<close> makes of it: the empty
  string, a text that is not JSON (\<open>JSON.parse\<close> throws a \<open>SyntaxError\<close>), or the JSON
  encoding of a \<open>StoredNodeState\<close>, which is what \<open>JSON.stringify(newKVData)\<close> writes.
  \<open>get_rejects\<close> and \<open>put_rejects\<close> give the keys on which the store's \<open>get\<close> and
  \<open>put\<close> promises reject, with the error message; \<open>list_rejects\<close> does so for \<open>list\<close>.
\<close>

datatype kv_text = Empty_text | Malformed_text | Encodes StoredNodeState

record KVNamespace =
  entries :: "(string \<times> kv_text) list"
  get_rejects :: "string \<Rightarrow> string option"
  put_rejects :: "string \<Rightarrow> string option"
  list_rejects :: "string option"

definition kv_get :: "KVNamespace \<Rightarrow> string \<Rightarrow> js_error + kv_text option" where
  "kv_get kv key =
     (case get_rejects kv key of
        Some m \<Rightarrow> Inl (Error m)
      | None \<Rightarrow> Inr (map_of (entries kv) key))"

fun update_entry :: "string \<Rightarrow> kv_text \<Rightarrow> (string \<times> kv_text) list \<Rightarrow> (string \<times> kv_text) list" where
  "update_entry k v [] = [(k, v)]"
| "update_entry k v ((k', v') # es) =
     (if k' = k then (k, v) # es else (k', v') # update_entry k v es)"

definition kv_put :: "KVNamespace \<Rightarrow> string \<Rightarrow> kv_text \<Rightarrow> js_error + KVNamespace" where
  "kv_put kv key text =
     (case put_rejects kv key of
        Some m \<Rightarrow> Inl (Error m)
      | None \<Rightarrow> Inr (kv\<lparr>entries := update_entry key text (entries kv)\<rparr>))"

fun JSON_parse :: "kv_text \<Rightarrow> js_error + StoredNodeState" where
  "JSON_parse Empty_text = Inl (SyntaxError ''Unexpected end of JSON input'')"
| "JSON_parse Malformed_text = Inl (SyntaxError ''Unexpected token in JSON'')"
| "JSON_parse (Encodes r) = Inr r"

subsection \<open>telegramNotifier.js: sendTelegramNotification (lines 33-84)\<close>

text \<open>
  What the network does with the request: \<open>fetch\<close> rejects, or \<open>response.json()\<close>
  rejects, or it resolves to \<open>responseData\<close>. \<open>Json_null\<close> is a \<open>responseData\<close> of
  \<open>null\<close>, on which reading \<open>.ok\<close> throws a \<open>TypeError\<close>; \<open>Json_object ok description
  error_code\<close> gives the truthiness of \<open>responseData.ok\<close>, \<open>responseData.description\<close>
  (empty when absent or falsy) and the text of \<open>responseData.error_code\<close>.
\<close>

datatype response_data = Json_null | Json_object bool string string

datatype fetch_outcome =
  Fetch_rejects string | Json_rejects string | Json_resolves response_data

record notify_result =
  success :: bool
  error :: "string option"

definition telegram_request :: "fetch_outcome \<Rightarrow> js_error + notify_result" where
  "telegram_request outcome =
     (case outcome of
        Fetch_rejects m \<Rightarrow> Inl (TypeError m)
      | Json_rejects m \<Rightarrow> Inl (SyntaxError m)
      | Json_resolves Json_null \<Rightarrow> Inl (TypeError ''Cannot read properties of null'')
      | Json_resolves (Json_object ok description error_code) \<Rightarrow>
          (if \<not> ok then
             Inr \<lparr> success = False,
                   error = Some (''Telegram API Error: '' @
                             (if description \<noteq> [] then description else error_code)) \<rparr>
           else Inr \<lparr> success = True, error = None \<rparr>))"

definition sendTelegramNotification ::
  "(message \<Rightarrow> fetch_outcome) \<Rightarrow> message \<Rightarrow> string \<Rightarrow> string \<Rightarrow> js_error + notify_result" where
  "sendTelegramNotification network messageText botToken chatId =
     (if botToken = [] \<or> chatId = [] then
        Inr \<lparr> success = False, error = Some ''Telegram secrets not provided to function'' \<rparr>
      else
        try_catch (telegram_request (network messageText))
          (\<lambda>fetchErr.
             Inr \<lparr> success = False,
                   error = Some (''Workspace Error: '' @ error_message fetchErr) \<rparr>))"

section \<open>The scheduled handler (src/index.js, lines 71-291)\<close>

text \<open>The fields of the configuration that the handlers read.\<close>

record AppConfig =
  apiAccessTokenWorker :: string
  telegramBotToken :: string
  telegramChatId :: string
  downThresholdMinutes :: "int option"
  reminderIntervalMinutes :: "int option"
  monitorTags :: "string list"

text \<open>
  The effects of a run, in order: calls of \<open>loadAppConfig\<close>, of \<open>request.headers.get\<close>,
  of the store and of \<open>sendTelegramNotification\<close>.
\<close>

datatype event =
  Load_config
| Header_get string
| KV_get string
| KV_put string StoredNodeState
| KV_list
| Notify message

text \<open>
  The state of a run: the error thrown (if any), the store and the effects so far.
\<close>

record run =
  thrown :: "js_error option"
  store :: KVNamespace
  trace :: "event list"

definition kvKey_of :: "TailscaleDevice \<Rightarrow> string" where
  "kvKey_of node = ''node:'' @ node_id node @ '':'' @ before_first_dot (name node)"

text \<open>Lines 113-135: the device is skipped (\<open>continue\<close>) when this is false.\<close>

definition deviceHasRequiredTag :: "AppConfig \<Rightarrow> TailscaleDevice \<Rightarrow> bool" where
  "deviceHasRequiredTag config node =
     list_ex (\<lambda>deviceTag. deviceTag \<in> set (monitorTags config)) (tags node)"

text \<open>Lines 146-149: the previous state, or the default for a key with no text.\<close>

definition previousStateData_of :: "kv_text option \<Rightarrow> js_error + StoredNodeState" where
  "previousStateData_of storedStateJSON =
     (case storedStateJSON of
        None \<Rightarrow> Inr \<lparr> state = None, alertTs = 0, firstDownTs = 0 \<rparr>
      | Some Empty_text \<Rightarrow> Inr \<lparr> state = None, alertTs = 0, firstDownTs = 0 \<rparr>
      | Some text \<Rightarrow> JSON_parse text)"

text \<open>
  One iteration of the loop of lines 112-262, for a device and the value of
  \<open>Date.now()\<close> read in its iteration. No statement of the iteration is inside a
  \<open>try\<close>: an error thrown by the store or by \<open>JSON.parse\<close> leaves the iteration.
\<close>

definition process_node ::
  "AppConfig \<Rightarrow> (message \<Rightarrow> fetch_outcome) \<Rightarrow> KVNamespace \<Rightarrow> TailscaleDevice \<times> int \<Rightarrow> run" where
  "process_node config network kv item =
    (let node = fst item; now = snd item in
     if monitorTags config \<noteq> [] \<and> \<not> deviceHasRequiredTag config node then
       \<lparr> thrown = None, store = kv, trace = [] \<rparr>
     else
       (let kvKey = kvKey_of node in
        case kv_get kv kvKey of
          Inl e \<Rightarrow> \<lparr> thrown = Some e, store = kv, trace = [KV_get kvKey] \<rparr>
        | Inr storedStateJSON \<Rightarrow>
           (case previousStateData_of storedStateJSON of
              Inl e \<Rightarrow> \<lparr> thrown = Some e, store = kv, trace = [KV_get kvKey] \<rparr>
            | Inr previousStateData \<Rightarrow>
               (let d = reconcile (reminderIntervalMinutes config) node previousStateData now;
                    sent = (case notification d of
                              None \<Rightarrow> Inr []
                            | Some m \<Rightarrow>
                               (case sendTelegramNotification network m
                                       (telegramBotToken config) (telegramChatId config) of
                                  Inl e \<Rightarrow> Inl e
                                | Inr r \<Rightarrow> Inr [Notify m]))
                in
                case sent of
                  Inl e \<Rightarrow> \<lparr> thrown = Some e, store = kv, trace = [KV_get kvKey] \<rparr>
                | Inr notified \<Rightarrow>
                   (if needsKVWrite d then
                      (case kv_put kv kvKey (Encodes (newKVData d)) of
                         Inl e \<Rightarrow>
                           \<lparr> thrown = Some e, store = kv,
                             trace = KV_get kvKey # notified @ [KV_put kvKey (newKVData d)] \<rparr>
                       | Inr kv' \<Rightarrow>
                           \<lparr> thrown = None, store = kv',
                             trace = KV_get kvKey # notified @ [KV_put kvKey (newKVData d)] \<rparr>)
                    else
                      \<lparr> thrown = None, store = kv, trace = KV_get kvKey # notified \<rparr>)))))"

text \<open>The \<open>for\<close> loop of line 112: it stops at the first iteration that throws.\<close>

fun process_devices ::
  "AppConfig \<Rightarrow> (message \<Rightarrow> fetch_outcome) \<Rightarrow> KVNamespace \<Rightarrow> (TailscaleDevice \<times> int) list \<Rightarrow> run" where
  "process_devices config network kv [] = \<lparr> thrown = None, store = kv, trace = [] \<rparr>"
| "process_devices config network kv (item # items) =
     (let r = process_node config network kv item in
      case thrown r of
        Some e \<Rightarrow> r
      | None \<Rightarrow>
          (let r' = process_devices config network (store r) items in
           r'\<lparr> trace := trace r @ trace r' \<rparr>))"

text \<open>
  What \<open>getTailscaleNodeDetails(config)\<close> settles to: it rejects, or resolves to a
  \<open>TailscaleStatusResult\<close>.
\<close>

record TailscaleStatusResult =
  status_success :: bool
  devices :: "TailscaleDevice list"
  status_message :: "string option"

text \<open>
  \<open>clock i\<close> is the value of \<open>Date.now()\<close> read at line 156 in iteration \<open>i\<close> of the
  loop; \<open>with_clock\<close> pairs every device with the reading of its iteration.
\<close>

definition with_clock :: "(nat \<Rightarrow> int) \<Rightarrow> TailscaleDevice list \<Rightarrow> (TailscaleDevice \<times> int) list" where
  "with_clock clock nodes = zip nodes (map clock [0 ..< length nodes])"

datatype status_outcome = Status_rejects js_error | Status_resolves TailscaleStatusResult

text \<open>
  Lines 88-276: the \<open>then\<close> callback and the \<open>catch\<close> callback that follows it. The
  result of \<open>sendTelegramNotification\<close> is not read; a notification error inside the
  \<open>catch\<close> callback would leave the promise rejected.
\<close>

definition notify_then ::
  "AppConfig \<Rightarrow> (message \<Rightarrow> fetch_outcome) \<Rightarrow> message \<Rightarrow> run \<Rightarrow> run" where
  "notify_then config network m r =
     (case sendTelegramNotification network m (telegramBotToken config) (telegramChatId config) of
        Inl e \<Rightarrow> r\<lparr> thrown := Some e \<rparr>
      | Inr res \<Rightarrow> r\<lparr> thrown := None, trace := trace r @ [Notify m] \<rparr>)"

definition then_callback ::
  "AppConfig \<Rightarrow> (message \<Rightarrow> fetch_outcome) \<Rightarrow> (nat \<Rightarrow> int) \<Rightarrow> KVNamespace \<Rightarrow>
     TailscaleStatusResult \<Rightarrow> run" where
  "then_callback config network clock kv statusResult =
     (if \<not> status_success statusResult then
        notify_then config network
          (Worker_error_message
             (escapeMarkdownV2
                (case status_message statusResult of
                   None \<Rightarrow> ''Failed to get node details for scheduled check.''
                 | Some m \<Rightarrow>
                     if m = [] then ''Failed to get node details for scheduled check.'' else m)))
          \<lparr> thrown = None, store = kv, trace = [] \<rparr>
      else if status_message statusResult = Some ''No devices found'' then
        notify_then config network No_devices_message
          \<lparr> thrown = None, store = kv, trace = [] \<rparr>
      else process_devices config network kv (with_clock clock (devices statusResult)))"

definition scheduled_check ::
  "AppConfig \<Rightarrow> (message \<Rightarrow> fetch_outcome) \<Rightarrow> (nat \<Rightarrow> int) \<Rightarrow> KVNamespace \<Rightarrow>
     status_outcome \<Rightarrow> run" where
  "scheduled_check config network clock kv outcome =
     (let r = (case outcome of
                 Status_rejects e \<Rightarrow> \<lparr> thrown = Some e, store = kv, trace = [] \<rparr>
               | Status_resolves statusResult \<Rightarrow>
                   then_callback config network clock kv statusResult)
      in
      case thrown r of
        None \<Rightarrow> r
      | Some e \<Rightarrow>
          notify_then config network
            (Failed_check_message (escapeMarkdownV2 (error_message e))) r)"

section \<open>tailscaleService.js: the liveness classification (lines 81-119)\<close>

text \<open>
  A device as the Tailscale API returns it. \<open>lastSeen_ms\<close> is the value of
  \<open>new Date(device.lastSeen).getTime()\<close>: \<open>None\<close> when the date is invalid (\<open>NaN\<close>).
  \<open>raw_tags\<close> is \<open>None\<close> when the device has no \<open>tags\<close> field.
\<close>

record api_device =
  raw_id :: string
  raw_name :: string
  raw_lastSeen :: string
  lastSeen_ms :: "int option"
  raw_tags :: "string list option"

text \<open>
  The body of the loop of lines 83-120, for \<open>now.getTime()\<close> and
  \<open>downThresholdMinutes\<close>. On an invalid date \<open>lastSeenDate.toISOString()\<close> at line 95
  throws a \<open>RangeError\<close>.
\<close>

definition device_details :: "int \<Rightarrow> int option \<Rightarrow> api_device \<Rightarrow> js_error + TailscaleDevice" where
  "device_details now_ms threshold device =
     (case lastSeen_ms device of
        None \<Rightarrow> Inl (RangeError ''Invalid time value'')
      | Some seen \<Rightarrow>
          (let minutes = of_int (now_ms - seen) / (1000 * 60);
               online = js_le minutes threshold
           in Inr \<lparr> node_id = raw_id device,
                    name = raw_name device,
                    tags = (case raw_tags device of None \<Rightarrow> [] | Some ts \<Rightarrow> ts),
                    isOnline = online,
                    lastSeen = raw_lastSeen device,
                    minutesSinceLastSeen = Some (Math_round minutes) \<rparr>))"

fun all_device_details ::
  "int \<Rightarrow> int option \<Rightarrow> api_device list \<Rightarrow> js_error + TailscaleDevice list" where
  "all_device_details now_ms threshold [] = Inr []"
| "all_device_details now_ms threshold (device # rest) =
     (case device_details now_ms threshold device of
        Inl e \<Rightarrow> Inl e
      | Inr d \<Rightarrow>
          (case all_device_details now_ms threshold rest of
             Inl e \<Rightarrow> Inl e
           | Inr ds \<Rightarrow> Inr (d # ds)))"

text \<open>
  What the requests of \<open>getTailscaleNodeDetails\<close> come to: the access token cannot be
  had, the API answers with a status that is not ok (status and body text), or it
  answers with the list \<open>data.devices || []\<close>.
\<close>

datatype api_outcome =
  Token_rejects js_error | Api_not_ok string string | Api_devices "api_device list"

definition getTailscaleNodeDetails :: "AppConfig \<Rightarrow> int \<Rightarrow> api_outcome \<Rightarrow> status_outcome" where
  "getTailscaleNodeDetails config now_ms outcome =
     (case outcome of
        Token_rejects e \<Rightarrow> Status_rejects e
      | Api_not_ok status errorText \<Rightarrow>
          Status_rejects (Error (''Tailscale API Error: '' @ status @ '' - '' @ errorText))
      | Api_devices ds \<Rightarrow>
          (if ds = [] then
             Status_resolves \<lparr> status_success = True, devices = [],
                               status_message = Some ''No devices found'' \<rparr>
           else
             (case all_device_details now_ms (downThresholdMinutes config) ds of
                Inl e \<Rightarrow> Status_rejects e
              | Inr details \<Rightarrow>
                  Status_resolves \<lparr> status_success = True, devices = details,
                                    status_message = None \<rparr>)))"

section \<open>config.js and envChecker.js\<close>

text \<open>
  A value of the environment: a text (a variable or a secret) or a binding object (a KV
  namespace). A key that is not set is \<open>None\<close>. The keys that the configuration reads
  as texts are variables and secrets; \<open>text_of\<close> is their text.
\<close>

datatype env_value = Text string | Binding

definition truthy :: "env_value option \<Rightarrow> bool" where
  "truthy v = (case v of None \<Rightarrow> False | Some (Text s) \<Rightarrow> s \<noteq> [] | Some Binding \<Rightarrow> True)"

definition text_of :: "env_value option \<Rightarrow> string" where
  "text_of v = (case v of Some (Text s) \<Rightarrow> s | _ \<Rightarrow> [])"

definition ALL_REQUIRED_KEYS :: "string list" where
  "ALL_REQUIRED_KEYS =
     [''API_ACCESS_TOKEN_WORKER'', ''TELEGRAM_BOT_TOKEN'', ''TELEGRAM_CHAT_ID'',
      ''TAILNET_NAME'', ''TAILSCALE_OAUTH_CLIENT_ID'', ''TAILSCALE_OAUTH_CLIENT_SECRET'',
      ''TAILSCALE_NODE_STATUS_KV'', ''TAILSCALE_OAUTH_TOKEN_CACHE_KV'',
      ''DOWN_THRESHOLD_MINUTES'', ''REMINDER_INTERVAL_MINUTES'', ''MONITOR_TAGS'',
      ''TOKEN_KV_KEY'', ''TOKEN_EXPIRY_BUFFER_SECONDS'']"

fun join :: "string \<Rightarrow> string list \<Rightarrow> string" where
  "join sep [] = []"
| "join sep [x] = x"
| "join sep (x # y # ys) = x @ sep @ join sep (y # ys)"

definition ensureRequiredEnv :: "(string \<Rightarrow> env_value option) \<Rightarrow> string list \<Rightarrow> js_error + unit" where
  "ensureRequiredEnv env requiredKeys =
     (let missingKeys = filter (\<lambda>key. \<not> truthy (env key)) requiredKeys in
      if length missingKeys > 0 then
        Inl (Error (''Configuration Error: Missing required environment variable(s): '' @
                    join '', '' missingKeys))
      else Inr ())"

text \<open>
  \<open>parseInt(s, 10)\<close>, \<open>s.split(",")\<close> and \<open>s.trim()\<close> on texts of ASCII characters.
\<close>

definition is_space :: "char \<Rightarrow> bool" where
  "is_space c = (c \<in> set [CHR '' '', CHR 0x09, CHR 0x0A, CHR 0x0B, CHR 0x0C, CHR 0x0D])"

definition is_digit :: "char \<Rightarrow> bool" where
  "is_digit c = (c \<in> set ''0123456789'')"

definition digit_value :: "char \<Rightarrow> int" where
  "digit_value c = int (of_char c) - 48"

definition digits_value :: "string \<Rightarrow> int" where
  "digits_value ds = foldl (\<lambda>acc c. 10 * acc + digit_value c) 0 ds"

definition parseInt10 :: "string \<Rightarrow> int option" where
  "parseInt10 s =
     (let t = dropWhile is_space s;
          negative = (t \<noteq> [] \<and> hd t = CHR ''-'');
          u = (if t \<noteq> [] \<and> (hd t = CHR ''-'' \<or> hd t = CHR ''+'') then tl t else t);
          ds = takeWhile is_digit u
      in if ds = [] then None
         else Some (if negative then - digits_value ds else digits_value ds))"

fun split_on :: "char \<Rightarrow> string \<Rightarrow> string list" where
  "split_on sep [] = [[]]"
| "split_on sep (c # cs) =
     (if c = sep then [] # split_on sep cs
      else (case split_on sep cs of
              [] \<Rightarrow> [[c]]
            | w # ws \<Rightarrow> (c # w) # ws))"

definition trim :: "string \<Rightarrow> string" where
  "trim s = rev (dropWhile is_space (rev (dropWhile is_space s)))"

definition loadAppConfig :: "(string \<Rightarrow> env_value option) \<Rightarrow> js_error + AppConfig" where
  "loadAppConfig env =
     (case ensureRequiredEnv env ALL_REQUIRED_KEYS of
        Inl e \<Rightarrow> Inl e
      | Inr _ \<Rightarrow>
          Inr \<lparr> apiAccessTokenWorker = text_of (env ''API_ACCESS_TOKEN_WORKER''),
                telegramBotToken = text_of (env ''TELEGRAM_BOT_TOKEN''),
                telegramChatId = text_of (env ''TELEGRAM_CHAT_ID''),
                downThresholdMinutes = parseInt10 (text_of (env ''DOWN_THRESHOLD_MINUTES'')),
                reminderIntervalMinutes =
                  parseInt10 (text_of (env ''REMINDER_INTERVAL_MINUTES'')),
                monitorTags =
                  filter (\<lambda>tag. length tag > 0)
                    (map trim (split_on CHR '','' (text_of (env ''MONITOR_TAGS'')))) \<rparr>)"

text \<open>
  \<open>scheduled\<close> (lines 71-291): a configuration error ends the invocation before
  anything else is done. The \<open>catch\<close> of lines 278-290 covers the log line and the call
  of \<open>ctx.waitUntil\<close>, which do not throw for the scheduled time that the platform
  passes. \<open>now_ms\<close> is \<open>now.getTime()\<close> at line 81 of tailscaleService.js.
\<close>

definition scheduled ::
  "(string \<Rightarrow> env_value option) \<Rightarrow> (message \<Rightarrow> fetch_outcome) \<Rightarrow> (nat \<Rightarrow> int) \<Rightarrow> KVNamespace \<Rightarrow>
     int \<Rightarrow> api_outcome \<Rightarrow> run" where
  "scheduled env network clock kv now_ms outcome =
     (case loadAppConfig env of
        Inl e \<Rightarrow> \<lparr> thrown = None, store = kv, trace = [Load_config] \<rparr>
      | Inr config \<Rightarrow>
          (let r = scheduled_check config network clock kv
                     (getTailscaleNodeDetails config now_ms outcome)
           in r\<lparr> trace := Load_config # trace r \<rparr>))"

section \<open>The status query handler (src/index.js, fetch, lines 303-426)\<close>

text \<open>
  Of a request the handler reads \<open>request.method\<close> (the field \<open>request_method\<close>) and
  the header \<open>X-Auth-Token\<close>, \<open>None\<close> when the request does not have it.
\<close>

record Request =
  request_method :: string
  x_auth_token :: "string option"

text \<open>
  A displayed timestamp: \<open>null\<close>, or the text \<open>new Date(ts).toISOString()\<close> of a
  timestamp, which is kept as the timestamp itself.
\<close>

datatype display_ts = Null_ts | ISO_string int

record status_entry =
  nodeId :: string
  shortName :: string
  entry_state :: "node_state option"
  entry_alertTs :: display_ts
  entry_firstDownTs :: display_ts

text \<open>
  The JSON body of a response: \<open>{success: false, error}\<close> or \<open>{success: true, data}\<close>.
\<close>

datatype response_body = Failure_body string | Success_body "status_entry list"

definition body_success :: "response_body \<Rightarrow> bool" where
  "body_success b = (case b of Failure_body e \<Rightarrow> False | Success_body d \<Rightarrow> True)"

record Response =
  status :: nat
  headers :: "(string \<times> string) list"
  body :: response_body

text \<open>
  Lines 359-379. \<open>toISOString\<close> throws a \<open>RangeError\<close> outside the range of \<open>Date\<close>.
\<close>

definition humanReadable :: "int \<Rightarrow> js_error + display_ts" where
  "humanReadable ts =
     (if ts = 0 then Inr Null_ts
      else if \<bar>ts\<bar> > 8640000000000000 then Inl (RangeError ''Invalid time value'')
      else Inr (ISO_string ts))"

text \<open>Lines 355-394: the entries (none or one) that a stored text adds to the answer.\<close>

definition entries_of :: "string \<Rightarrow> kv_text \<Rightarrow> js_error + status_entry list" where
  "entries_of keyName storedValueJSON =
     (case JSON_parse storedValueJSON of
        Inl e \<Rightarrow> Inl e
      | Inr storedValue \<Rightarrow>
          (let parts = split_on CHR '':'' keyName in
           if length parts = 3 \<and> parts ! 0 = ''node'' then
             (case humanReadable (alertTs storedValue) of
                Inl e \<Rightarrow> Inl e
              | Inr humanReadableAlertTs \<Rightarrow>
                  (case humanReadable (firstDownTs storedValue) of
                     Inl e \<Rightarrow> Inl e
                   | Inr humanReadableFirstDownTs \<Rightarrow>
                       Inr [\<lparr> nodeId = parts ! 1, shortName = parts ! 2,
                              entry_state = state storedValue,
                              entry_alertTs = humanReadableAlertTs,
                              entry_firstDownTs = humanReadableFirstDownTs \<rparr>]))
           else Inr []))"

text \<open>
  The loop of lines 351-401: a rejected \<open>get\<close> leaves the loop; an error while an entry
  is processed is caught at line 395 and the entry is left out.
\<close>

fun kvStoredStatuses ::
  "KVNamespace \<Rightarrow> string list \<Rightarrow> js_error option \<times> status_entry list \<times> event list" where
  "kvStoredStatuses kv [] = (None, [], [])"
| "kvStoredStatuses kv (keyName # keys) =
     (case kv_get kv keyName of
        Inl e \<Rightarrow> (Some e, [], [KV_get keyName])
      | Inr storedValueJSON \<Rightarrow>
          (let pushed =
                 (case storedValueJSON of
                    None \<Rightarrow> []
                  | Some Empty_text \<Rightarrow> []
                  | Some text \<Rightarrow>
                      (case try_catch (entries_of keyName text) (\<lambda>e. Inr []) of
                         Inl e \<Rightarrow> []
                       | Inr es \<Rightarrow> es))
           in case kvStoredStatuses kv keys of
                (err, rest, tr) \<Rightarrow> (err, pushed @ rest, KV_get keyName # tr)))"

definition json_headers :: "(string \<times> string) list" where
  "json_headers = [(''Content-Type'', ''application/json'')]"

text \<open>
  The handler returns the response and the effects it had. The store is the namespace
  bound to \<open>TAILSCALE_NODE_STATUS_KV\<close>; when that key holds a text instead, calling
  \<open>config.nodeStatusKV.list\<close> throws a \<open>TypeError\<close>, caught at line 409.
\<close>

definition fetch_handler ::
  "Request \<Rightarrow> (string \<Rightarrow> env_value option) \<Rightarrow> KVNamespace \<Rightarrow> Response \<times> event list" where
  "fetch_handler request env kv =
     (if request_method request \<noteq> ''GET'' then
        (\<lparr> status = 405,
           headers = [(''Content-Type'', ''application/json''), (''Allow'', ''GET'')],
           body = Failure_body ''Method Not Allowed'' \<rparr>, [])
      else
        (case loadAppConfig env of
           Inl err \<Rightarrow>
             (\<lparr> status = 500, headers = json_headers,
                body = Failure_body (''Worker not configured: '' @ error_message err) \<rparr>,
              [Load_config])
         | Inr config \<Rightarrow>
             (if apiAccessTokenWorker config \<noteq> [] \<and>
                 x_auth_token request \<noteq> Some (apiAccessTokenWorker config) then
                (\<lparr> status = 401, headers = json_headers,
                   body = Failure_body ''Unauthorized'' \<rparr>,
                 [Load_config, Header_get ''X-Auth-Token''])
              else
                (let before = Load_config #
                       (if apiAccessTokenWorker config \<noteq> [] then [Header_get ''X-Auth-Token'']
                        else []);
                     failed = (\<lambda>err tr.
                       (\<lparr> status = 500, headers = json_headers,
                          body = Failure_body (''Failed to retrieve statuses from KV: '' @
                                               error_message err) \<rparr>, before @ tr))
                 in
                 case env ''TAILSCALE_NODE_STATUS_KV'' of
                   Some Binding \<Rightarrow>
                     (case list_rejects kv of
                        Some m \<Rightarrow> failed (Error m) [KV_list]
                      | None \<Rightarrow>
                          (case kvStoredStatuses kv (map fst (entries kv)) of
                             (Some err, found, tr) \<Rightarrow> failed err (KV_list # tr)
                           | (None, found, tr) \<Rightarrow>
                               (\<lparr> status = 200, headers = json_headers,
                                  body = Success_body found \<rparr>, before @ KV_list # tr)))
                 | _ \<Rightarrow> failed (TypeError ''config.nodeStatusKV.list is not a function'') []))))"

section \<open>Observations on runs, and example inputs\<close>

text \<open>The events that a decision adds to the trace of its iteration.\<close>

definition notified :: "decision \<Rightarrow> event list" where
  "notified d = (case notification d of None \<Rightarrow> [] | Some m \<Rightarrow> [Notify m])"

definition written :: "string \<Rightarrow> decision \<Rightarrow> event list" where
  "written key d = (if needsKVWrite d then [KV_put key (newKVData d)] else [])"

text \<open>The record that the store holds under a key, if the text there encodes one.\<close>

definition persisted :: "KVNamespace \<Rightarrow> string \<Rightarrow> StoredNodeState option" where
  "persisted kv key = (case map_of (entries kv) key of Some (Encodes r) \<Rightarrow> Some r | _ \<Rightarrow> None)"

text \<open>A store with the given entries on which no operation rejects.\<close>

definition kv_of :: "(string \<times> kv_text) list \<Rightarrow> KVNamespace" where
  "kv_of es = \<lparr> entries = es, get_rejects = (\<lambda>key. None), put_rejects = (\<lambda>key. None),
               list_rejects = None \<rparr>"

text \<open>
  A network on which every request to Telegram fails, and one on which every request
  is answered with \<open>{ok: true}\<close>.
\<close>

definition net_down :: "message \<Rightarrow> fetch_outcome" where
  "net_down m = Fetch_rejects ''network down''"

definition net_ok :: "message \<Rightarrow> fetch_outcome" where
  "net_ok m = Json_resolves (Json_object True [] [])"

text \<open>
  Two offline devices with the tag \<open>tag:critical\<close>, with the keys \<open>node:n1:web-1\<close> and
  \<open>node:n2:db-1\<close>; the first of them observed online; and the first of them with the
  tag \<open>tag:other\<close> instead.
\<close>

definition web1 :: TailscaleDevice where
  "web1 = \<lparr> node_id = ''n1'', name = ''web-1.tail.ts.net'', tags = [''tag:critical''],
            isOnline = False, lastSeen = ''2024-01-01T00:00:00Z'',
            minutesSinceLastSeen = Some 30 \<rparr>"

definition db1 :: TailscaleDevice where
  "db1 = \<lparr> node_id = ''n2'', name = ''db-1.tail.ts.net'', tags = [''tag:critical''],
           isOnline = False, lastSeen = ''2024-01-01T00:00:00Z'',
           minutesSinceLastSeen = Some 30 \<rparr>"

definition web1_online :: TailscaleDevice where
  "web1_online = web1\<lparr> isOnline := True \<rparr>"

definition web1_other :: TailscaleDevice where
  "web1_other = web1\<lparr> tags := [''tag:other''] \<rparr>"

text \<open>
  The configuration of \<open>wrangler.toml\<close>, with reminders every 240 minutes, and the same
  with \<open>REMINDER_INTERVAL_MINUTES = "0"\<close>.
\<close>

definition config240 :: AppConfig where
  "config240 = \<lparr> apiAccessTokenWorker = ''secret'', telegramBotToken = ''bot'',
                 telegramChatId = ''42'', downThresholdMinutes = Some 15,
                 reminderIntervalMinutes = Some 240, monitorTags = [''tag:critical''] \<rparr>"

definition config0 :: AppConfig where
  "config0 = config240\<lparr> reminderIntervalMinutes := Some 0 \<rparr>"

definition env0 :: "string \<Rightarrow> env_value option" where
  "env0 = map_of
     [(''API_ACCESS_TOKEN_WORKER'', Text ''secret''), (''TELEGRAM_BOT_TOKEN'', Text ''bot''),
      (''TELEGRAM_CHAT_ID'', Text ''42''), (''TAILNET_NAME'', Text ''example.com''),
      (''TAILSCALE_OAUTH_CLIENT_ID'', Text ''id''),
      (''TAILSCALE_OAUTH_CLIENT_SECRET'', Text ''secret''),
      (''TAILSCALE_NODE_STATUS_KV'', Binding), (''TAILSCALE_OAUTH_TOKEN_CACHE_KV'', Binding),
      (''DOWN_THRESHOLD_MINUTES'', Text ''15''), (''REMINDER_INTERVAL_MINUTES'', Text ''0''),
      (''MONITOR_TAGS'', Text ''tag:critical''),
      (''TOKEN_KV_KEY'', Text ''tailscale_oauth_token''),
      (''TOKEN_EXPIRY_BUFFER_SECONDS'', Text ''300'')]"

definition empty_env :: "string \<Rightarrow> env_value option" where
  "empty_env key = None"

definition post_request :: Request where
  "post_request = \<lparr> request_method = ''POST'', x_auth_token = None \<rparr>"

text \<open>A device of the API whose last contact was at the given time.\<close>

definition seen_at :: "int \<Rightarrow> api_device" where
  "seen_at ms = \<lparr> raw_id = ''n1'', raw_name = ''web-1.tail.ts.net'',
                  raw_lastSeen = ''2024-01-01T00:00:00Z'', lastSeen_ms = Some ms,
                  raw_tags = Some [''tag:critical''] \<rparr>"

section \<open>Lemmas on rounding, the notifier, the store and one iteration\<close>

lemmas example_defs = web1_def config240_def kv_of_def net_down_def kvKey_of_def
  before_first_dot_def deviceHasRequiredTag_def

lemmas run_defs = process_node_def kv_get_def kv_put_def previousStateData_of_def
  reconcile_def Let_def js_ge_def sendTelegramNotification_def try_catch_def
  telegram_request_def

lemma Math_round_0: "Math_round 0 = 0"
  unfolding Math_round_def by (simp add: floor_eq_iff)

lemma Math_round_of_int: "Math_round (of_int n) = n"
  unfolding Math_round_def by (simp add: floor_eq_iff)

lemma Math_round_numeral: "Math_round (numeral k) = numeral k"
  using Math_round_of_int [of "numeral k"] by simp

lemma Math_round_div:
  "0 < b \<Longrightarrow> Math_round (of_int a / of_int b) = (2 * a + b) div (2 * b)"
proof -
  assume b: "0 < b"
  have "(of_int a / of_int b + 1 / 2 :: rat) = of_int (2 * a + b) / of_int (2 * b)"
    using b by (simp add: field_simps)
  then show ?thesis
    unfolding Math_round_def by (simp only: floor_divide_of_int_eq)
qed

lemma Math_round_nearest: "\<bar>of_int (Math_round x) - x\<bar> \<le> 1 / 2"
  unfolding Math_round_def by linarith

lemma send_returns: "\<exists>r. sendTelegramNotification network m botToken chatId = Inr r"
  by (cases "telegram_request (network m)")
     (simp_all add: sendTelegramNotification_def try_catch_def)

lemma map_of_update_entry: "map_of (update_entry k v es) = (map_of es)(k \<mapsto> v)"
  by (induction es) (auto simp: fun_eq_iff)

lemma persisted_parsed:
  "persisted kv key = Some p \<Longrightarrow> previousStateData_of (map_of (entries kv) key) = Inr p"
  by (auto simp: persisted_def previousStateData_of_def split: option.splits kv_text.splits)

lemma persisted_update:
  "persisted (kv\<lparr>entries := update_entry k (Encodes r) (entries kv)\<rparr>) key =
     (if key = k then Some r else persisted kv key)"
  by (simp add: persisted_def map_of_update_entry)

text \<open>The configuration with a reminder interval of 0 is one that \<open>loadAppConfig\<close> accepts.\<close>

lemma zero_interval_is_loaded: "loadAppConfig env0 = Inr config0"
  by (simp add: loadAppConfig_def ensureRequiredEnv_def ALL_REQUIRED_KEYS_def env0_def
      truthy_def text_of_def parseInt10_def is_space_def is_digit_def digits_value_def
      digit_value_def trim_def config0_def config240_def Let_def)

subsection \<open>The decision\<close>

lemma reconcile_written_record:
  assumes "0 < now" and "needsKVWrite (reconcile R node prev now)"
  shows "(firstDownTs (newKVData (reconcile R node prev now)) \<noteq> 0
            \<longleftrightarrow> state (newKVData (reconcile R node prev now)) = Some OFFLINE) \<and>
         (state (newKVData (reconcile R node prev now)) = Some ONLINE
            \<longrightarrow> alertTs (newKVData (reconcile R node prev now)) = 0 \<and>
                firstDownTs (newKVData (reconcile R node prev now)) = 0)"
  using assms by (auto simp: reconcile_def Let_def split: if_splits)

lemma reconcile_firstDownTs_mono:
  assumes "0 < now" and "state prev = Some OFFLINE"
    and "state (newKVData (reconcile R node prev now)) = Some OFFLINE"
  shows "firstDownTs prev \<le> firstDownTs (newKVData (reconcile R node prev now))"
  using assms by (auto simp: reconcile_def Let_def split: if_splits)

lemma reconcile_unwritten:
  "\<not> needsKVWrite (reconcile R node prev now) \<Longrightarrow>
     newKVData (reconcile R node prev now) = prev \<and>
     notification (reconcile R node prev now) = None"
  by (auto simp: reconcile_def Let_def split: if_splits)

text \<open>An online device whose previous state is not \<open>ONLINE\<close>: the record is reset and written.\<close>

lemma reconcile_into_online:
  assumes "isOnline node" and "state prev \<noteq> Some ONLINE"
  shows "needsKVWrite (reconcile R node prev now) \<and>
         newKVData (reconcile R node prev now) =
           \<lparr> state = Some ONLINE, alertTs = 0, firstDownTs = 0 \<rparr>"
proof (cases "state prev")
  case None
  with assms show ?thesis by (simp add: reconcile_def Let_def)
next
  case (Some s)
  with assms have "state prev = Some OFFLINE" by (cases s) simp_all
  with assms show ?thesis by (simp add: reconcile_def Let_def)
qed

lemma reconcile_idempotent:
  assumes "isOnline node \<or> (case R of None \<Rightarrow> True | Some n \<Rightarrow> 0 < n)"
  shows "\<not> needsKVWrite (reconcile R node (newKVData (reconcile R node prev now)) now) \<and>
         notification (reconcile R node (newKVData (reconcile R node prev now)) now) = None"
  using assms
  by (auto simp: reconcile_def Let_def js_ge_def split: option.splits if_splits)

subsection \<open>One iteration of the loop\<close>

text \<open>
  An iteration for a device that passes the tag filter, whose record is read and parsed
  and whose key can be written: it reads, notifies as decided and writes as decided.
\<close>

lemma process_node_passed:
  assumes pass: "monitorTags config = [] \<or> deviceHasRequiredTag config node"
    and get: "get_rejects kv (kvKey_of node) = None"
    and prev: "previousStateData_of (map_of (entries kv) (kvKey_of node)) = Inr prev"
    and put: "put_rejects kv (kvKey_of node) = None"
  shows "process_node config network kv (node, now) =
    (let d = reconcile (reminderIntervalMinutes config) node prev now in
      \<lparr> thrown = None,
        store = (if needsKVWrite d
                 then kv\<lparr>entries :=
                        update_entry (kvKey_of node) (Encodes (newKVData d)) (entries kv)\<rparr>
                 else kv),
        trace = KV_get (kvKey_of node) # notified d @ written (kvKey_of node) d \<rparr>)"
proof (cases "notification (reconcile (reminderIntervalMinutes config) node prev now)")
  case None
  then show ?thesis
    using pass get prev put
    by (auto simp: process_node_def Let_def kv_get_def kv_put_def notified_def written_def)
next
  case (Some m)
  obtain r where "sendTelegramNotification network m (telegramBotToken config)
      (telegramChatId config) = Inr r"
    using send_returns by blast
  with Some show ?thesis
    using pass get prev put
    by (auto simp: process_node_def Let_def kv_get_def kv_put_def notified_def written_def)
qed

text \<open>The same without the condition on \<open>put\<close>: the trace, whether or not the write is rejected.\<close>

lemma process_node_trace:
  assumes pass: "monitorTags config = [] \<or> deviceHasRequiredTag config node"
    and get: "get_rejects kv (kvKey_of node) = None"
    and prev: "previousStateData_of (map_of (entries kv) (kvKey_of node)) = Inr prev"
  shows "trace (process_node config network kv (node, now)) =
    KV_get (kvKey_of node) # notified (reconcile (reminderIntervalMinutes config) node prev now)
      @ written (kvKey_of node) (reconcile (reminderIntervalMinutes config) node prev now)"
proof (cases "notification (reconcile (reminderIntervalMinutes config) node prev now)")
  case None
  then show ?thesis
    using pass get prev
    by (auto simp: process_node_def Let_def kv_get_def kv_put_def notified_def written_def
        split: option.splits)
next
  case (Some m)
  obtain r where "sendTelegramNotification network m (telegramBotToken config)
      (telegramChatId config) = Inr r"
    using send_returns by blast
  with Some show ?thesis
    using pass get prev
    by (auto simp: process_node_def Let_def kv_get_def kv_put_def notified_def written_def
        split: option.splits)
qed

lemma process_node_skipped:
  "monitorTags config \<noteq> [] \<and> \<not> deviceHasRequiredTag config node \<Longrightarrow>
     process_node config network kv (node, now) = \<lparr> thrown = None, store = kv, trace = [] \<rparr>"
  by (simp add: process_node_def)

lemma process_node_reads:
  "monitorTags config = [] \<or> deviceHasRequiredTag config node \<Longrightarrow>
     KV_get (kvKey_of node) \<in> set (trace (process_node config network kv (node, now)))"
  by (auto simp: process_node_def Let_def split: sum.splits)

text \<open>A record that cannot be read or parsed: the iteration throws after the read.\<close>

lemma process_node_unread:
  assumes "monitorTags config = [] \<or> deviceHasRequiredTag config node"
    and "get_rejects kv (kvKey_of node) = Some m \<or>
         (get_rejects kv (kvKey_of node) = None \<and>
          previousStateData_of (map_of (entries kv) (kvKey_of node)) = Inl e)"
  shows "store (process_node config network kv (node, now)) = kv \<and>
         trace (process_node config network kv (node, now)) = [KV_get (kvKey_of node)] \<and>
         thrown (process_node config network kv (node, now)) \<noteq> None"
  using assms by (auto simp: process_node_def Let_def kv_get_def)

text \<open>What an iteration can do to the store, and which records it hands to \<open>put\<close>.\<close>

lemma process_node_effect:
  "store (process_node config network kv (node, now)) = kv \<or>
    (\<exists>prev. previousStateData_of (map_of (entries kv) (kvKey_of node)) = Inr prev \<and>
       needsKVWrite (reconcile (reminderIntervalMinutes config) node prev now) \<and>
       store (process_node config network kv (node, now)) =
         kv\<lparr>entries := update_entry (kvKey_of node)
              (Encodes (newKVData (reconcile (reminderIntervalMinutes config) node prev now)))
              (entries kv)\<rparr>)"
  by (auto simp: process_node_def Let_def kv_get_def kv_put_def
      split: option.splits sum.splits)

lemma process_node_puts:
  "KV_put key rec \<in> set (trace (process_node config network kv (node, now))) \<Longrightarrow>
     \<exists>prev. needsKVWrite (reconcile (reminderIntervalMinutes config) node prev now) \<and>
       rec = newKVData (reconcile (reminderIntervalMinutes config) node prev now)"
  by (auto simp: process_node_def Let_def kv_get_def kv_put_def
      split: option.splits sum.splits if_splits)

subsection \<open>The loop\<close>

text \<open>An iteration that throws ends the loop: the devices after it are not visited.\<close>

lemma process_devices_stops:
  "thrown (process_node config network kv item) \<noteq> None \<Longrightarrow>
     process_devices config network kv (item # items) = process_node config network kv item"
  by (auto simp: Let_def split: option.splits)

text \<open>Every record written in a cycle is one that the decision of some device asked for.\<close>

lemma process_devices_puts:
  assumes "KV_put key rec \<in> set (trace (process_devices config network kv items))"
  shows "\<exists>node now prev. (node, now) \<in> set items \<and>
           needsKVWrite (reconcile (reminderIntervalMinutes config) node prev now) \<and>
           rec = newKVData (reconcile (reminderIntervalMinutes config) node prev now)"
  using assms
proof (induction items arbitrary: kv)
  case Nil
  then show ?case by simp
next
  case (Cons item items)
  obtain node now where item: "item = (node, now)" by (cases item)
  show ?case
  proof (cases "thrown (process_node config network kv item)")
    case None
    with Cons.prems
    consider "KV_put key rec \<in> set (trace (process_node config network kv item))"
      | "KV_put key rec \<in> set (trace (process_devices config network
            (store (process_node config network kv item)) items))"
      by (auto simp: Let_def)
    then show ?thesis
    proof cases
      case 1
      with process_node_puts [of key rec config network kv node now] item
      show ?thesis by auto
    next
      case 2
      from Cons.IH [OF 2] show ?thesis by auto
    qed
  next
    case (Some e)
    with Cons.prems have "KV_put key rec \<in> set (trace (process_node config network kv item))"
      by (simp add: Let_def)
    with process_node_puts [of key rec config network kv node now] item
    show ?thesis by auto
  qed
qed

text \<open>
  Lifted to a whole cycle whose clock readings are after the epoch: every record that
  the cycle writes has a non-zero \<open>firstDownTs\<close> exactly when it is \<open>OFFLINE\<close>, and
  zero timestamps when it is \<open>ONLINE\<close>.
\<close>

lemma with_clock_positive:
  "\<forall>i. 0 < clock i \<Longrightarrow> (node, now) \<in> set (with_clock clock nodes) \<Longrightarrow> 0 < now"
  by (auto simp: with_clock_def in_set_zip)

lemma notify_then_puts:
  "KV_put key rec \<in> set (trace (notify_then config network m r)) \<longleftrightarrow>
   KV_put key rec \<in> set (trace r)"
  by (auto simp: notify_then_def split: sum.splits)

lemma cycle_written_records:
  assumes clock: "\<forall>i. 0 < clock i"
    and put: "KV_put key rec \<in> set (trace (scheduled_check config network clock kv outcome))"
  shows "(firstDownTs rec \<noteq> 0 \<longleftrightarrow> state rec = Some OFFLINE) \<and>
         (state rec = Some ONLINE \<longrightarrow> alertTs rec = 0 \<and> firstDownTs rec = 0)"
proof -
  from put have "\<exists>ds. KV_put key rec \<in> set (trace (process_devices config network kv
                    (with_clock clock ds)))"
    by (auto simp: scheduled_check_def then_callback_def notify_then_puts Let_def
        split: status_outcome.splits option.splits if_splits)
  then obtain ds node now prev
    where item: "(node, now) \<in> set (with_clock clock ds)"
      and w: "needsKVWrite (reconcile (reminderIntervalMinutes config) node prev now)"
      and rec: "rec = newKVData (reconcile (reminderIntervalMinutes config) node prev now)"
    using process_devices_puts by blast
  from with_clock_positive [OF clock item] have "0 < now" .
  from reconcile_written_record [OF this w] rec show ?thesis by simp
qed

section \<open>The reminder rule\<close>

text \<open>
  Claim C1, for a stored record \<open>{OFFLINE, A, F}\<close> and a device observed offline at
  \<open>now\<close>. A reminder is sent if and only if the reminder interval is a number \<open>R\<close> of
  minutes with \<open>now - A \<ge> R\<close> minutes. When it is sent, the record written has
  \<open>alertTs = now\<close>, and \<open>firstDownTs = F\<close> when \<open>F\<close> is not zero; a stored
  \<open>firstDownTs\<close> of zero is replaced by \<open>now\<close>. When no reminder is sent the
  iteration only reads the store: nothing is written and the store is unchanged.
\<close>

theorem reminder_rule:
  assumes "monitorTags config = [] \<or> deviceHasRequiredTag config node"
    and "\<not> isOnline node"
    and "get_rejects kv (kvKey_of node) = None"
    and "put_rejects kv (kvKey_of node) = None"
    and "map_of (entries kv) (kvKey_of node) =
           Some (Encodes \<lparr> state = Some OFFLINE, alertTs = A, firstDownTs = F \<rparr>)"
  shows "let due = (case reminderIntervalMinutes config of
                      None \<Rightarrow> False
                    | Some R \<Rightarrow> R * 60000 \<le> now - A);
             F' = (if F = 0 then now else F);
             reminder = Still_offline_message (escapeMarkdownV2 (before_first_dot (name node)))
                          (escapeMarkdownV2 (lastSeen node)) (minutesSinceLastSeen node)
                          (Math_round (of_int (now - F') / 60000));
             new = \<lparr> state = Some OFFLINE, alertTs = now, firstDownTs = F' \<rparr>;
             r = process_node config network kv (node, now)
         in thrown r = None \<and>
            ((\<exists>m. Notify m \<in> set (trace r)) \<longleftrightarrow> due) \<and>
            (due \<longrightarrow>
               trace r = [KV_get (kvKey_of node), Notify reminder, KV_put (kvKey_of node) new] \<and>
               map_of (entries (store r)) (kvKey_of node) = Some (Encodes new)) \<and>
            (\<not> due \<longrightarrow> trace r = [KV_get (kvKey_of node)] \<and> store r = kv)"
proof -
  let ?prev = "\<lparr> state = Some OFFLINE, alertTs = A, firstDownTs = F \<rparr>"
  have prev: "previousStateData_of (map_of (entries kv) (kvKey_of node)) = Inr ?prev"
    using assms(5) by (simp add: previousStateData_of_def)
  have run: "process_node config network kv (node, now) =
    (let d = reconcile (reminderIntervalMinutes config) node ?prev now in
      \<lparr> thrown = None,
        store = (if needsKVWrite d
                 then kv\<lparr>entries :=
                        update_entry (kvKey_of node) (Encodes (newKVData d)) (entries kv)\<rparr>
                 else kv),
        trace = KV_get (kvKey_of node) # notified d @ written (kvKey_of node) d \<rparr>)"
    by (rule process_node_passed [OF assms(1) assms(3) prev assms(4)])
  show ?thesis
    unfolding run using assms(2)
    by (cases "reminderIntervalMinutes config")
       (simp_all add: reconcile_def Let_def js_ge_def notified_def written_def
          map_of_update_entry le_divide_eq)
qed

text \<open>
  The rule at \<open>{OFFLINE, 60000, 30000}\<close>, 240 minutes after the last alert: the reminder
  is due and the record \<open>{OFFLINE, 14460000, 30000}\<close> is written.
\<close>

theorem reminder_rule_witness:
  "KV_put ''node:n1:web-1'' \<lparr> state = Some OFFLINE, alertTs = 14460000, firstDownTs = 30000 \<rparr>
     \<in> set (trace (process_node config240 net_down
          (kv_of [(''node:n1:web-1'',
                   Encodes \<lparr> state = Some OFFLINE, alertTs = 60000, firstDownTs = 30000 \<rparr>)])
          (web1, 14460000)))"
proof -
  let ?kv = "kv_of [(''node:n1:web-1'',
                     Encodes \<lparr> state = Some OFFLINE, alertTs = 60000, firstDownTs = 30000 \<rparr>)]"
  have h1: "monitorTags config240 = [] \<or> deviceHasRequiredTag config240 web1"
    by (simp add: example_defs)
  have h2: "\<not> isOnline web1" by (simp add: example_defs)
  have h3: "get_rejects ?kv (kvKey_of web1) = None" by (simp add: example_defs)
  have h4: "put_rejects ?kv (kvKey_of web1) = None" by (simp add: example_defs)
  have h5: "map_of (entries ?kv) (kvKey_of web1) =
      Some (Encodes \<lparr> state = Some OFFLINE, alertTs = 60000, firstDownTs = 30000 \<rparr>)"
    by (simp add: example_defs)
  have k: "kvKey_of web1 = ''node:n1:web-1''" by (simp add: example_defs)
  have c: "reminderIntervalMinutes config240 = Some 240" by (simp add: config240_def)
  show ?thesis
    using reminder_rule [OF h1 h2 h3 h4 h5, of 14460000 net_down]
    by (simp add: Let_def k c)
qed

text \<open>
  With a stored \<open>firstDownTs\<close> of zero the reminder does not leave \<open>firstDownTs\<close> as it
  was: for \<open>{OFFLINE, 1000, 0}\<close> read at \<open>now = 14401000\<close> the record written is
  \<open>{OFFLINE, 14401000, 14401000}\<close>.
\<close>

theorem reminder_rule_counterexample:
  "map_of (entries (store (process_node config240 net_down
      (kv_of [(''node:n1:web-1'',
               Encodes \<lparr> state = Some OFFLINE, alertTs = 1000, firstDownTs = 0 \<rparr>)])
      (web1, 14401000)))) ''node:n1:web-1''
   = Some (Encodes \<lparr> state = Some OFFLINE, alertTs = 14401000, firstDownTs = 14401000 \<rparr>)"
  by (simp add: example_defs run_defs)

section \<open>The initial alert\<close>

text \<open>
  Claim C2. For a device observed offline at \<open>now\<close> whose previous state is not
  \<open>OFFLINE\<close> (it is \<open>ONLINE\<close>, or \<open>null\<close>, or the key holds nothing), the iteration
  sends the initial offline alert and writes the record \<open>{OFFLINE, now, now}\<close>.
\<close>

theorem initial_down_alert:
  assumes "monitorTags config = [] \<or> deviceHasRequiredTag config node"
    and "\<not> isOnline node"
    and "get_rejects kv (kvKey_of node) = None"
    and "put_rejects kv (kvKey_of node) = None"
    and "previousStateData_of (map_of (entries kv) (kvKey_of node)) = Inr prev"
    and "state prev \<noteq> Some OFFLINE"
  shows "let alert = Offline_message (escapeMarkdownV2 (before_first_dot (name node)))
                       (escapeMarkdownV2 (lastSeen node)) (minutesSinceLastSeen node);
             new = \<lparr> state = Some OFFLINE, alertTs = now, firstDownTs = now \<rparr>;
             r = process_node config network kv (node, now)
         in thrown r = None \<and>
            trace r = [KV_get (kvKey_of node), Notify alert, KV_put (kvKey_of node) new] \<and>
            map_of (entries (store r)) (kvKey_of node) = Some (Encodes new)"
  unfolding process_node_passed [OF assms(1) assms(3) assms(5) assms(4)]
  using assms(2) assms(6)
  by (simp add: reconcile_def Let_def notified_def written_def map_of_update_entry)

text \<open>Scenario 2: \<open>{ONLINE, 0, 0}\<close>, observed offline at \<open>now = 1000\<close>.\<close>

theorem initial_down_alert_witness:
  "trace (process_node config240 net_down
      (kv_of [(''node:n1:web-1'', Encodes \<lparr> state = Some ONLINE, alertTs = 0, firstDownTs = 0 \<rparr>)])
      (web1, 1000))
   = [KV_get ''node:n1:web-1'',
      Notify (Offline_message (escapeMarkdownV2 ''web-1'') (escapeMarkdownV2 (lastSeen web1))
                (Some 30)),
      KV_put ''node:n1:web-1'' \<lparr> state = Some OFFLINE, alertTs = 1000, firstDownTs = 1000 \<rparr>]"
proof -
  let ?prev = "\<lparr> state = Some ONLINE, alertTs = 0, firstDownTs = 0 \<rparr>"
  let ?kv = "kv_of [(''node:n1:web-1'', Encodes ?prev)]"
  have h1: "monitorTags config240 = [] \<or> deviceHasRequiredTag config240 web1"
    by (simp add: example_defs)
  have h2: "\<not> isOnline web1" by (simp add: example_defs)
  have h3: "get_rejects ?kv (kvKey_of web1) = None" by (simp add: example_defs)
  have h4: "put_rejects ?kv (kvKey_of web1) = None" by (simp add: example_defs)
  have h5: "previousStateData_of (map_of (entries ?kv) (kvKey_of web1)) = Inr ?prev"
    by (simp add: example_defs previousStateData_of_def)
  have h6: "state ?prev \<noteq> Some OFFLINE" by simp
  have k: "kvKey_of web1 = ''node:n1:web-1''" by (simp add: example_defs)
  have n: "before_first_dot (name web1) = ''web-1''" "minutesSinceLastSeen web1 = Some 30"
    by (simp_all add: example_defs)
  show ?thesis
    using initial_down_alert [OF h1 h2 h3 h4 h5 h6, of 1000 net_down]
    by (simp add: Let_def k n)
qed

section \<open>The records that are written\<close>

text \<open>
  Claim C3, for one iteration of the loop at a time \<open>now\<close> after the epoch
  (\<open>Date.now()\<close> is positive). Every record handed to \<open>put\<close> has a non-zero
  \<open>firstDownTs\<close> if and only if its state is \<open>OFFLINE\<close>, and a record with state
  \<open>ONLINE\<close> has \<open>alertTs = 0\<close> and \<open>firstDownTs = 0\<close>. A transition into \<open>ONLINE\<close>
  does write: when a device that passes the tag filter is observed online and the state
  read for it is not \<open>ONLINE\<close> (it is \<open>OFFLINE\<close>, or \<open>null\<close>, or the key holds
  nothing), the iteration hands the record \<open>{ONLINE, 0, 0}\<close> to \<open>put\<close>, and unless the
  store rejects the write that record is the one kept afterwards. While the record kept
  under a key stays \<open>OFFLINE\<close> from before the iteration to after it, its
  \<open>firstDownTs\<close> does not decrease.
\<close>

theorem written_records_wellformed:
  assumes "0 < now"
  shows "let r = process_node config network kv (node, now);
             online = \<lparr> state = Some ONLINE, alertTs = 0, firstDownTs = 0 \<rparr>
         in
     (\<forall>key rec. KV_put key rec \<in> set (trace r) \<longrightarrow>
        (firstDownTs rec \<noteq> 0 \<longleftrightarrow> state rec = Some OFFLINE) \<and>
        (state rec = Some ONLINE \<longrightarrow> alertTs rec = 0 \<and> firstDownTs rec = 0)) \<and>
     (\<forall>prev. (monitorTags config = [] \<or> deviceHasRequiredTag config node) \<and>
        get_rejects kv (kvKey_of node) = None \<and>
        previousStateData_of (map_of (entries kv) (kvKey_of node)) = Inr prev \<and>
        isOnline node \<and> state prev \<noteq> Some ONLINE \<longrightarrow>
        KV_put (kvKey_of node) online \<in> set (trace r) \<and>
        (put_rejects kv (kvKey_of node) = None \<longrightarrow>
           thrown r = None \<and> persisted (store r) (kvKey_of node) = Some online)) \<and>
     (\<forall>key p q. persisted kv key = Some p \<and> state p = Some OFFLINE \<and>
        persisted (store r) key = Some q \<and> state q = Some OFFLINE \<longrightarrow>
        firstDownTs p \<le> firstDownTs q)"
proof -
  let ?r = "process_node config network kv (node, now)"
  let ?R = "reminderIntervalMinutes config"
  let ?online = "\<lparr> state = Some ONLINE, alertTs = 0, firstDownTs = 0 \<rparr>"
  have puts: "(firstDownTs rec \<noteq> 0 \<longleftrightarrow> state rec = Some OFFLINE) \<and>
        (state rec = Some ONLINE \<longrightarrow> alertTs rec = 0 \<and> firstDownTs rec = 0)"
    if "KV_put key rec \<in> set (trace ?r)" for key rec
  proof -
    from process_node_puts [OF that] obtain prev
      where w: "needsKVWrite (reconcile ?R node prev now)"
        and rec: "rec = newKVData (reconcile ?R node prev now)"
      by blast
    show ?thesis
      unfolding rec by (rule reconcile_written_record [OF assms w])
  qed
  have into: "KV_put (kvKey_of node) ?online \<in> set (trace ?r) \<and>
        (put_rejects kv (kvKey_of node) = None \<longrightarrow>
           thrown ?r = None \<and> persisted (store ?r) (kvKey_of node) = Some ?online)"
    if pass: "monitorTags config = [] \<or> deviceHasRequiredTag config node"
      and get: "get_rejects kv (kvKey_of node) = None"
      and prev: "previousStateData_of (map_of (entries kv) (kvKey_of node)) = Inr prev"
      and on: "isOnline node" and st: "state prev \<noteq> Some ONLINE"
    for prev
  proof -
    note d = reconcile_into_online [OF on st, of ?R now]
    have t: "KV_put (kvKey_of node) ?online \<in> set (trace ?r)"
      unfolding process_node_trace [OF pass get prev]
      using d by (simp add: written_def)
    have s: "thrown ?r = None \<and> persisted (store ?r) (kvKey_of node) = Some ?online"
      if put: "put_rejects kv (kvKey_of node) = None"
      unfolding process_node_passed [OF pass get prev put]
      using d by (simp add: Let_def persisted_update)
    from t s show ?thesis by blast
  qed
  have mono: "firstDownTs p \<le> firstDownTs q"
    if p: "persisted kv key = Some p" and sp: "state p = Some OFFLINE"
      and q: "persisted (store ?r) key = Some q" and sq: "state q = Some OFFLINE"
    for key p q
  proof -
    from process_node_effect [of config network kv node now]
    consider (same) "store ?r = kv"
      | (upd) prev where
          "previousStateData_of (map_of (entries kv) (kvKey_of node)) = Inr prev"
          "store ?r = kv\<lparr>entries := update_entry (kvKey_of node)
              (Encodes (newKVData (reconcile ?R node prev now)))
              (entries kv)\<rparr>"
      by blast
    then show ?thesis
    proof cases
      case same
      with p q show ?thesis by simp
    next
      case upd
      show ?thesis
      proof (cases "key = kvKey_of node")
        case True
        from persisted_parsed [OF p] upd(1) True have pp: "prev = p" by simp
        from q upd(2) True
        have qq: "q = newKVData (reconcile ?R node p now)"
          by (simp add: persisted_update pp)
        show ?thesis
          using reconcile_firstDownTs_mono [OF assms sp, of ?R node] sq qq by simp
      next
        case False
        with p q upd(2) show ?thesis by (simp add: persisted_update)
      qed
    qed
  qed
  show ?thesis
    unfolding Let_def using puts into mono by blast
qed

text \<open>
  For \<open>{OFFLINE, 5000, 2000}\<close> at \<open>now = 14405000\<close>: observed online, the record
  \<open>{ONLINE, 0, 0}\<close> is written and kept; observed offline, the reminder writes
  \<open>{OFFLINE, 14405000, 2000}\<close>, and \<open>firstDownTs\<close> stays at 2000.
\<close>

theorem written_records_wellformed_witness:
  "(0::int) < 14405000 \<and>
   KV_put ''node:n1:web-1'' \<lparr> state = Some ONLINE, alertTs = 0, firstDownTs = 0 \<rparr>
     \<in> set (trace (process_node config240 net_down
       (kv_of [(''node:n1:web-1'',
           Encodes \<lparr> state = Some OFFLINE, alertTs = 5000, firstDownTs = 2000 \<rparr>)])
       (web1_online, 14405000))) \<and>
   persisted (store (process_node config240 net_down
       (kv_of [(''node:n1:web-1'',
           Encodes \<lparr> state = Some OFFLINE, alertTs = 5000, firstDownTs = 2000 \<rparr>)])
       (web1_online, 14405000))) ''node:n1:web-1''
     = Some \<lparr> state = Some ONLINE, alertTs = 0, firstDownTs = 0 \<rparr> \<and>
   persisted (store (process_node config240 net_down
       (kv_of [(''node:n1:web-1'',
           Encodes \<lparr> state = Some OFFLINE, alertTs = 5000, firstDownTs = 2000 \<rparr>)])
       (web1, 14405000))) ''node:n1:web-1''
     = Some \<lparr> state = Some OFFLINE, alertTs = 14405000, firstDownTs = 2000 \<rparr> \<and>
   KV_put ''node:n1:web-1'' \<lparr> state = Some OFFLINE, alertTs = 14405000, firstDownTs = 2000 \<rparr>
     \<in> set (trace (process_node config240 net_down
       (kv_of [(''node:n1:web-1'',
           Encodes \<lparr> state = Some OFFLINE, alertTs = 5000, firstDownTs = 2000 \<rparr>)])
       (web1, 14405000))) \<and>
   (2000::int) \<le> 2000"
proof -
  let ?old = "\<lparr> state = Some OFFLINE, alertTs = 5000, firstDownTs = 2000 \<rparr>"
  let ?new = "\<lparr> state = Some OFFLINE, alertTs = 14405000, firstDownTs = 2000 \<rparr>"
  let ?online = "\<lparr> state = Some ONLINE, alertTs = 0, firstDownTs = 0 \<rparr>"
  let ?kv = "kv_of [(''node:n1:web-1'', Encodes ?old)]"
  let ?r = "process_node config240 net_down ?kv (web1, 14405000)"
  let ?r' = "process_node config240 net_down ?kv (web1_online, 14405000)"
  have now: "(0::int) < 14405000" by simp
  have k: "kvKey_of web1_online = ''node:n1:web-1''"
    by (simp add: web1_online_def example_defs)
  have h1: "monitorTags config240 = [] \<or> deviceHasRequiredTag config240 web1_online"
    by (simp add: web1_online_def example_defs)
  have h2: "get_rejects ?kv (kvKey_of web1_online) = None" by (simp add: kv_of_def)
  have h3: "previousStateData_of (map_of (entries ?kv) (kvKey_of web1_online)) = Inr ?old"
    by (simp add: k kv_of_def previousStateData_of_def)
  have h4: "isOnline web1_online" by (simp add: web1_online_def)
  have h5: "state ?old \<noteq> Some ONLINE" by simp
  have h6: "put_rejects ?kv (kvKey_of web1_online) = None" by (simp add: kv_of_def)
  from written_records_wellformed [OF now, of config240 net_down ?kv web1_online]
  have "\<forall>prev. (monitorTags config240 = [] \<or> deviceHasRequiredTag config240 web1_online) \<and>
        get_rejects ?kv (kvKey_of web1_online) = None \<and>
        previousStateData_of (map_of (entries ?kv) (kvKey_of web1_online)) = Inr prev \<and>
        isOnline web1_online \<and> state prev \<noteq> Some ONLINE \<longrightarrow>
        KV_put (kvKey_of web1_online) ?online \<in> set (trace ?r') \<and>
        (put_rejects ?kv (kvKey_of web1_online) = None \<longrightarrow>
           thrown ?r' = None \<and> persisted (store ?r') (kvKey_of web1_online) = Some ?online)"
    unfolding Let_def by blast
  with h1 h2 h3 h4 h5 h6
  have on: "KV_put ''node:n1:web-1'' ?online \<in> set (trace ?r')"
    and ps: "persisted (store ?r') ''node:n1:web-1'' = Some ?online"
    unfolding k by blast+
  have p: "persisted ?kv ''node:n1:web-1'' = Some ?old"
    by (simp add: persisted_def kv_of_def)
  have q: "persisted (store ?r) ''node:n1:web-1'' = Some ?new"
    by (simp add: example_defs run_defs persisted_def)
  have w: "KV_put ''node:n1:web-1'' ?new \<in> set (trace ?r)"
    by (simp add: example_defs run_defs)
  from written_records_wellformed [OF now, of config240 net_down ?kv web1]
  have "\<forall>key p q. persisted ?kv key = Some p \<and> state p = Some OFFLINE \<and>
        persisted (store ?r) key = Some q \<and> state q = Some OFFLINE \<longrightarrow>
        firstDownTs p \<le> firstDownTs q"
    unfolding Let_def by blast
  with p q have "firstDownTs ?old \<le> firstDownTs ?new"
    by (metis StoredNodeState.select_convs(1))
  then have "(2000::int) \<le> 2000" by simp
  with now on ps q w show ?thesis by blast
qed

section \<open>Running an iteration twice\<close>

text \<open>
  Claim C4, when the write of the first run is not rejected and the device is observed
  online or the reminder interval is positive (or not a number). A second run of the
  iteration on the store that the first run left, with the same observation and the
  same \<open>now\<close>, sends no notification and writes nothing: it leaves the store as it is
  and does at most the read of the device's key.
\<close>

theorem second_run_is_silent:
  assumes put: "put_rejects kv (kvKey_of node) = None"
    and pos: "isOnline node \<or>
              (case reminderIntervalMinutes config of None \<Rightarrow> True | Some R \<Rightarrow> 0 < R)"
  shows "let r1 = process_node config network kv (node, now);
             r2 = process_node config network (store r1) (node, now)
         in store r2 = store r1 \<and> set (trace r2) \<subseteq> {KV_get (kvKey_of node)}"
proof -
  let ?key = "kvKey_of node"
  let ?R = "reminderIntervalMinutes config"
  consider (skipped) "monitorTags config \<noteq> [] \<and> \<not> deviceHasRequiredTag config node"
    | (rejected) m where "monitorTags config = [] \<or> deviceHasRequiredTag config node"
        "get_rejects kv ?key = Some m"
    | (unparsed) e where "monitorTags config = [] \<or> deviceHasRequiredTag config node"
        "get_rejects kv ?key = None"
        "previousStateData_of (map_of (entries kv) ?key) = Inl e"
    | (passed) prev where "monitorTags config = [] \<or> deviceHasRequiredTag config node"
        "get_rejects kv ?key = None"
        "previousStateData_of (map_of (entries kv) ?key) = Inr prev"
    by (cases "get_rejects kv ?key"; cases "previousStateData_of (map_of (entries kv) ?key)")
       auto
  then show ?thesis
  proof cases
    case skipped
    then show ?thesis by (simp add: process_node_skipped)
  next
    case rejected
    from process_node_unread [OF rejected(1), of kv m] rejected(2)
    show ?thesis by (simp add: Let_def)
  next
    case unparsed
    from process_node_unread [OF unparsed(1), of kv _ e] unparsed(2,3)
    show ?thesis by (simp add: Let_def)
  next
    case passed
    let ?d1 = "reconcile ?R node prev now"
    let ?kv' = "if needsKVWrite ?d1
                then kv\<lparr>entries := update_entry ?key (Encodes (newKVData ?d1)) (entries kv)\<rparr>
                else kv"
    have r1: "store (process_node config network kv (node, now)) = ?kv'"
      by (simp add: process_node_passed [OF passed(1) passed(2) passed(3) put] Let_def)
    have get': "get_rejects ?kv' ?key = None" and put': "put_rejects ?kv' ?key = None"
      using passed(2) put by simp_all
    have prev': "previousStateData_of (map_of (entries ?kv') ?key) = Inr (newKVData ?d1)"
      using passed(3) reconcile_unwritten [of ?R node prev now]
      by (simp add: map_of_update_entry previousStateData_of_def)
    have r2: "process_node config network ?kv' (node, now) =
        \<lparr> thrown = None, store = ?kv', trace = [KV_get ?key] \<rparr>"
      unfolding process_node_passed [OF passed(1) get' prev' put']
      using reconcile_idempotent [OF pos, of prev now]
      by (simp add: Let_def notified_def written_def)
    show ?thesis
      unfolding Let_def r1 r2 by simp
  qed
qed

text \<open>
  With reminders every 240 minutes: a device with no record is seen offline at
  \<open>now = 1000\<close>, and the second run at the same time only reads.
\<close>

theorem second_run_is_silent_witness:
  "store (process_node config240 net_down
            (store (process_node config240 net_down (kv_of []) (web1, 1000))) (web1, 1000))
     = store (process_node config240 net_down (kv_of []) (web1, 1000)) \<and>
   set (trace (process_node config240 net_down
            (store (process_node config240 net_down (kv_of []) (web1, 1000))) (web1, 1000)))
     \<subseteq> {KV_get ''node:n1:web-1''}"
proof -
  have h1: "put_rejects (kv_of []) (kvKey_of web1) = None" by (simp add: kv_of_def)
  have h2: "isOnline web1 \<or>
      (case reminderIntervalMinutes config240 of None \<Rightarrow> True | Some R \<Rightarrow> 0 < R)"
    by (simp add: config240_def)
  have k: "kvKey_of web1 = ''node:n1:web-1''" by (simp add: example_defs)
  from second_run_is_silent [OF h1 h2, of net_down 1000]
  show ?thesis
    by (simp add: Let_def k)
qed

text \<open>
  With a reminder interval of 0 minutes the second run is not silent: the first run
  writes \<open>{OFFLINE, 1000, 1000}\<close>, and the second run at the same \<open>now = 1000\<close> finds
  \<open>0 \<ge> 0\<close> minutes since the last alert, sends a reminder and writes again.
\<close>

theorem second_run_counterexample:
  "trace (process_node config0 net_down
            (store (process_node config0 net_down (kv_of []) (web1, 1000))) (web1, 1000))
   = [KV_get ''node:n1:web-1'',
      Notify (Still_offline_message (escapeMarkdownV2 ''web-1'')
                (escapeMarkdownV2 ''2024-01-01T00:00:00Z'') (Some 30) 0),
      KV_put ''node:n1:web-1'' \<lparr> state = Some OFFLINE, alertTs = 1000, firstDownTs = 1000 \<rparr>]"
  by (simp add: config0_def example_defs run_defs Math_round_0)

section \<open>Scenario 3\<close>

text \<open>
  Claim C5. The stored record is \<open>{OFFLINE, 1000, 1000}\<close>, the reminder interval is 240
  minutes and the device is observed offline at \<open>now = 1000 + 240 * 60000 = 14401000\<close>.
  The iteration sends the reminder, with an outage of 240 minutes, and writes the record
  \<open>{OFFLINE, 14401000, 1000}\<close>.
\<close>

theorem scenario_3:
  assumes "monitorTags config = [] \<or> deviceHasRequiredTag config node"
    and "\<not> isOnline node"
    and "get_rejects kv (kvKey_of node) = None"
    and "put_rejects kv (kvKey_of node) = None"
    and "map_of (entries kv) (kvKey_of node) =
           Some (Encodes \<lparr> state = Some OFFLINE, alertTs = 1000, firstDownTs = 1000 \<rparr>)"
    and "reminderIntervalMinutes config = Some 240"
  shows "let r = process_node config network kv (node, 1000 + 240 * 60000) in
     trace r = [KV_get (kvKey_of node),
                Notify (Still_offline_message (escapeMarkdownV2 (before_first_dot (name node)))
                          (escapeMarkdownV2 (lastSeen node)) (minutesSinceLastSeen node) 240),
                KV_put (kvKey_of node)
                  \<lparr> state = Some OFFLINE, alertTs = 14401000, firstDownTs = 1000 \<rparr>] \<and>
     persisted (store r) (kvKey_of node) =
       Some \<lparr> state = Some OFFLINE, alertTs = 14401000, firstDownTs = 1000 \<rparr>"
proof -
  let ?prev = "\<lparr> state = Some OFFLINE, alertTs = 1000, firstDownTs = 1000 \<rparr>"
  have prev: "previousStateData_of (map_of (entries kv) (kvKey_of node)) = Inr ?prev"
    using assms(5) by (simp add: previousStateData_of_def)
  show ?thesis
    unfolding process_node_passed [OF assms(1) assms(3) prev assms(4)]
    using assms(2) assms(6)
    by (simp add: reconcile_def Let_def js_ge_def notified_def written_def
          persisted_def map_of_update_entry Math_round_numeral)
qed

theorem scenario_3_witness:
  "persisted (store (process_node config240 net_down
      (kv_of [(''node:n1:web-1'',
               Encodes \<lparr> state = Some OFFLINE, alertTs = 1000, firstDownTs = 1000 \<rparr>)])
      (web1, 1000 + 240 * 60000))) ''node:n1:web-1''
   = Some \<lparr> state = Some OFFLINE, alertTs = 14401000, firstDownTs = 1000 \<rparr>"
proof -
  let ?kv = "kv_of [(''node:n1:web-1'',
                     Encodes \<lparr> state = Some OFFLINE, alertTs = 1000, firstDownTs = 1000 \<rparr>)]"
  have h1: "monitorTags config240 = [] \<or> deviceHasRequiredTag config240 web1"
    by (simp add: example_defs)
  have h2: "\<not> isOnline web1" by (simp add: example_defs)
  have h3: "get_rejects ?kv (kvKey_of web1) = None" by (simp add: example_defs)
  have h4: "put_rejects ?kv (kvKey_of web1) = None" by (simp add: example_defs)
  have h5: "map_of (entries ?kv) (kvKey_of web1) =
      Some (Encodes \<lparr> state = Some OFFLINE, alertTs = 1000, firstDownTs = 1000 \<rparr>)"
    by (simp add: example_defs)
  have h6: "reminderIntervalMinutes config240 = Some 240" by (simp add: config240_def)
  have k: "kvKey_of web1 = ''node:n1:web-1''" by (simp add: example_defs)
  show ?thesis
    using scenario_3 [OF h1 h2 h3 h4 h5 h6, of net_down]
    by (simp add: Let_def k)
qed

text \<open>
  The record \<open>{OFFLINE, 15400000, 1000}\<close> is not the one that is written: \<open>alertTs\<close>
  becomes \<open>now\<close>, which is 14401000.
\<close>

theorem scenario_3_counterexample:
  "persisted (store (process_node config240 net_down
      (kv_of [(''node:n1:web-1'',
               Encodes \<lparr> state = Some OFFLINE, alertTs = 1000, firstDownTs = 1000 \<rparr>)])
      (web1, 1000 + 240 * 60000))) ''node:n1:web-1''
   \<noteq> Some \<lparr> state = Some OFFLINE, alertTs = 15400000, firstDownTs = 1000 \<rparr>"
  by (simp add: example_defs run_defs persisted_def)

section \<open>A record that cannot be parsed\<close>

text \<open>
  Claim C6 asks that an error on one device's record stays with that device. The loop
  has no handler of its own. In a cycle over the devices \<open>web1\<close> and \<open>db1\<close> where the
  text stored for \<open>web1\<close> is not JSON, the \<open>SyntaxError\<close> of \<open>JSON.parse\<close> leaves the
  loop and reaches the \<open>catch\<close> callback of line 264: one notification of a failed check
  is sent, and \<open>db1\<close>, which is offline and has no record, is neither read nor alerted
  nor written.
\<close>

theorem corrupt_record_aborts_cycle:
  "scheduled_check config240 net_down (\<lambda>i. 1000)
     (kv_of [(''node:n1:web-1'', Malformed_text)])
     (Status_resolves \<lparr> status_success = True, devices = [web1, db1], status_message = None \<rparr>)
   = \<lparr> thrown = None,
       store = kv_of [(''node:n1:web-1'', Malformed_text)],
       trace = [KV_get ''node:n1:web-1'',
                Notify (Failed_check_message (escapeMarkdownV2 ''Unexpected token in JSON''))] \<rparr>"
  by (simp add: scheduled_check_def then_callback_def with_clock_def notify_then_def
      db1_def example_defs run_defs upt_rec)

section \<open>The liveness classification\<close>

text \<open>
  Claim C7. For a threshold of \<open>T\<close> minutes and a last contact at \<open>seen\<close>, with
  \<open>m = (now - seen) / 60000\<close> the minutes elapsed, the device is classified online if
  and only if \<open>m \<le> T\<close>, the boundary included; the comparison is on \<open>m\<close> itself, that
  is on \<open>now - seen \<le> T * 60000\<close> milliseconds. The reported \<open>minutesSinceLastSeen\<close>
  is \<open>Math.round(m)\<close>, an integer at most half a minute from \<open>m\<close>.
\<close>

theorem classifier_threshold:
  assumes "lastSeen_ms device = Some seen"
  shows "\<exists>d. device_details now (Some T) device = Inr d \<and>
           (isOnline d \<longleftrightarrow> (of_int (now - seen) / 60000 :: rat) \<le> of_int T) \<and>
           (isOnline d \<longleftrightarrow> now - seen \<le> T * 60000) \<and>
           minutesSinceLastSeen d = Some (Math_round (of_int (now - seen) / 60000)) \<and>
           \<bar>(of_int (Math_round (of_int (now - seen) / 60000)) :: rat)
              - of_int (now - seen) / 60000\<bar> \<le> 1 / 2"
proof -
  let ?m = "of_int (now - seen) / 60000 :: rat"
  have ms: "?m \<le> of_int T \<longleftrightarrow> now - seen \<le> T * 60000"
  proof -
    have "?m \<le> of_int T \<longleftrightarrow> (of_int (now - seen) :: rat) \<le> of_int (T * 60000)"
      by (simp add: divide_le_eq)
    then show ?thesis by (simp only: of_int_le_iff)
  qed
  have "device_details now (Some T) device =
      Inr \<lparr> node_id = raw_id device, name = raw_name device,
            tags = (case raw_tags device of None \<Rightarrow> [] | Some ts \<Rightarrow> ts),
            isOnline = (?m \<le> of_int T), lastSeen = raw_lastSeen device,
            minutesSinceLastSeen = Some (Math_round ?m) \<rparr>"
    using assms by (simp add: device_details_def Let_def js_le_def)
  with ms Math_round_nearest [of ?m] show ?thesis by simp
qed

text \<open>A device seen exactly 15 minutes ago, with a threshold of 15 minutes, is online.\<close>

theorem classifier_threshold_witness:
  "device_details 900000 (Some 15) (seen_at 0) =
     Inr \<lparr> node_id = ''n1'', name = ''web-1.tail.ts.net'', tags = [''tag:critical''],
           isOnline = True, lastSeen = ''2024-01-01T00:00:00Z'',
           minutesSinceLastSeen = Some 15 \<rparr>"
proof -
  have h: "lastSeen_ms (seen_at 0) = Some 0" by (simp add: seen_at_def)
  from classifier_threshold [OF h, of 900000 15]
  obtain d where d: "device_details 900000 (Some 15) (seen_at 0) = Inr d"
    and on: "isOnline d \<longleftrightarrow> (900000::int) - 0 \<le> 15 * 60000"
    and mins: "minutesSinceLastSeen d = Some (Math_round (of_int (900000 - 0) / 60000))"
    by blast
  have "Math_round (of_int (900000 - 0) / 60000) = 15"
    using Math_round_div [of 60000 900000] by simp
  with d on mins show ?thesis
    by (simp add: device_details_def seen_at_def Let_def js_le_def)
qed

text \<open>
  Rounding is for the report only: 15.4 minutes are reported as 15, and with a
  threshold of 15 the device is offline.
\<close>

lemma rounding_is_display_only:
  "device_details 924000 (Some 15) (seen_at 0) =
     Inr \<lparr> node_id = ''n1'', name = ''web-1.tail.ts.net'', tags = [''tag:critical''],
           isOnline = False, lastSeen = ''2024-01-01T00:00:00Z'',
           minutesSinceLastSeen = Some 15 \<rparr>"
  using Math_round_div [of 60000 924000]
  by (simp add: device_details_def seen_at_def Let_def js_le_def)

section \<open>The tag filter\<close>

text \<open>
  Claim C8. A device is processed when its iteration reaches the read of its key. With
  no monitor tags configured every device is processed; with monitor tags configured a
  device is processed if and only if one of its tags is among them. For a device that
  is not processed the iteration does nothing: no read, no write, no notification, and
  the store is unchanged.
\<close>

theorem tag_filter:
  "let r = process_node config network kv (node, now);
       processed = (KV_get (kvKey_of node) \<in> set (trace r))
   in (monitorTags config = [] \<longrightarrow> processed) \<and>
      (monitorTags config \<noteq> [] \<longrightarrow>
         (processed \<longleftrightarrow> (\<exists>t \<in> set (tags node). t \<in> set (monitorTags config)))) \<and>
      (\<not> processed \<longrightarrow> r = \<lparr> thrown = None, store = kv, trace = [] \<rparr>)"
proof (cases "monitorTags config \<noteq> [] \<and> \<not> deviceHasRequiredTag config node")
  case True
  then show ?thesis
    by (auto simp: process_node_skipped deviceHasRequiredTag_def list_ex_iff)
next
  case False
  then have "monitorTags config = [] \<or> deviceHasRequiredTag config node" by blast
  from process_node_reads [OF this] False show ?thesis
    by (auto simp: Let_def deviceHasRequiredTag_def list_ex_iff)
qed

text \<open>Scenario 5: the filter is \<open>tag:critical\<close> and the device has \<open>tag:other\<close>.\<close>

theorem tag_filter_witness:
  "monitorTags config240 = [''tag:critical''] \<and> tags web1_other = [''tag:other''] \<and>
   process_node config240 net_down (kv_of []) (web1_other, 1000)
     = \<lparr> thrown = None, store = kv_of [], trace = [] \<rparr>"
proof -
  have t: "monitorTags config240 = [''tag:critical'']" "tags web1_other = [''tag:other'']"
    by (simp_all add: config240_def web1_other_def web1_def)
  from tag_filter [of config240 net_down "kv_of []" web1_other 1000]
  have "process_node config240 net_down (kv_of []) (web1_other, 1000)
     = \<lparr> thrown = None, store = kv_of [], trace = [] \<rparr>"
    by (simp add: Let_def t)
  with t show ?thesis by simp
qed

section \<open>The notifier\<close>

text \<open>
  Claim C9. Whatever the message, the token, the chat id and the network do,
  \<open>sendTelegramNotification\<close> returns (it does not throw) a result whose \<open>success\<close> is
  a boolean, with an \<open>error\<close> text exactly when \<open>success\<close> is false. An iteration of the
  loop does not depend on how the delivery went: with any two networks it has the same
  outcome, the same store and the same trace, so a failed delivery does not keep the
  record from being written.
\<close>

theorem notifier_never_throws:
  "(\<exists>r. sendTelegramNotification network m botToken chatId = Inr r \<and>
        (success r \<longleftrightarrow> error r = None)) \<and>
   process_node config network kv item = process_node config network' kv item"
proof
  show "\<exists>r. sendTelegramNotification network m botToken chatId = Inr r \<and>
        (success r \<longleftrightarrow> error r = None)"
    by (cases "network m" rule: fetch_outcome.exhaust)
       (auto simp: sendTelegramNotification_def try_catch_def telegram_request_def
          split: response_data.splits)
next
  have same: "(case sendTelegramNotification network x (telegramBotToken config)
                 (telegramChatId config) of Inl e \<Rightarrow> Inl e | Inr r \<Rightarrow> Inr [Notify x])
            = (Inr [Notify x] :: js_error + event list)" for network x
    using send_returns [of network x "telegramBotToken config" "telegramChatId config"]
    by auto
  show "process_node config network kv item = process_node config network' kv item"
    unfolding process_node_def same ..
qed

text \<open>
  With the network down the notifier returns a failure, and the iteration for an
  offline device with no record is the same as with a working network: the record is
  written.
\<close>

theorem notifier_never_throws_witness:
  "sendTelegramNotification net_down No_devices_message ''bot'' ''42''
     = Inr \<lparr> success = False, error = Some ''Workspace Error: network down'' \<rparr> \<and>
   process_node config240 net_down (kv_of []) (web1, 1000)
     = process_node config240 net_ok (kv_of []) (web1, 1000) \<and>
   KV_put ''node:n1:web-1'' \<lparr> state = Some OFFLINE, alertTs = 1000, firstDownTs = 1000 \<rparr>
     \<in> set (trace (process_node config240 net_down (kv_of []) (web1, 1000)))"
proof -
  have a: "sendTelegramNotification net_down No_devices_message ''bot'' ''42''
     = Inr \<lparr> success = False, error = Some ''Workspace Error: network down'' \<rparr>"
    by (simp add: sendTelegramNotification_def try_catch_def telegram_request_def net_down_def)
  have c: "KV_put ''node:n1:web-1'' \<lparr> state = Some OFFLINE, alertTs = 1000, firstDownTs = 1000 \<rparr>
     \<in> set (trace (process_node config240 net_down (kv_of []) (web1, 1000)))"
    by (simp add: example_defs run_defs)
  from notifier_never_throws [of net_down _ _ _ config240 "kv_of []" "(web1, 1000)" net_ok]
  have b: "process_node config240 net_down (kv_of []) (web1, 1000)
     = process_node config240 net_ok (kv_of []) (web1, 1000)"
    by blast
  from a b c show ?thesis by blast
qed

section \<open>Requests that are not GET\<close>

text \<open>
  Claim C10. For a request whose method is not \<open>GET\<close> the handler answers with status
  405, the header \<open>Allow: GET\<close> and a body with \<open>success: false\<close>, whatever the
  environment and the store are, and with no effect: the configuration is not loaded,
  no header is read and the store is not called.
\<close>

theorem non_get_is_rejected:
  assumes "request_method request \<noteq> ''GET''"
  shows "fetch_handler request env kv =
     (\<lparr> status = 405,
        headers = [(''Content-Type'', ''application/json''), (''Allow'', ''GET'')],
        body = Failure_body ''Method Not Allowed'' \<rparr>, []) \<and>
     map_of (headers (fst (fetch_handler request env kv))) ''Allow'' = Some ''GET'' \<and>
     \<not> body_success (body (fst (fetch_handler request env kv)))"
  using assms by (simp add: fetch_handler_def body_success_def)

text \<open>A \<open>POST\<close> request, with an environment in which nothing is configured.\<close>

theorem non_get_is_rejected_witness:
  "request_method post_request \<noteq> ''GET'' \<and>
   fetch_handler post_request empty_env (kv_of []) =
     (\<lparr> status = 405,
        headers = [(''Content-Type'', ''application/json''), (''Allow'', ''GET'')],
        body = Failure_body ''Method Not Allowed'' \<rparr>, [])"
proof -
  have h: "request_method post_request \<noteq> ''GET''" by (simp add: post_request_def)
  from non_get_is_rejected [OF h, of empty_env "kv_of []"] h show ?thesis by blast
qed

end
